theory Spec2Isabelle
  imports Main
begin

section \<open>The WhatsApp bridge: protocol client adapter and relay server\<close>

text \<open>
  The bridge consists of two classes. \<^verbatim>\<open>WhatsAppClient\<close> (the adapter) wraps the Baileys
  socket: it connects, reconnects after a close, normalises inbound messages and sends text.
  \<^verbatim>\<open>BridgeServer\<close> (the relay) owns the adapter and a set of WebSocket peers: it
  broadcasts adapter events to the peers and forwards their send commands.

  Both are event driven. Every handler runs to its next \<^verbatim>\<open>await\<close> without
  interleaving, so a handler is a function from the state to the new state and the list of
  calls it makes on its collaborators, in program order.
\<close>

subsection \<open>JavaScript values\<close>

text \<open>
  The values \<^verbatim>\<open>JSON.parse\<close> can return and \<^verbatim>\<open>JSON.stringify\<close> can take.
  \<open>JUndefined\<close> is what reading a missing property gives. An object is the list of its
  own properties.
\<close>

datatype js =
    JUndefined
  | JNull
  | JBool bool
  | JNum int
  | JStr string
  | JArr "js list"
  | JObj "(string \<times> js) list"

text \<open>JavaScript truthiness of an optional string: \<^verbatim>\<open>undefined\<close>, \<^verbatim>\<open>null\<close> and \<^verbatim>\<open>''\<close> are falsy.\<close>

fun truthy :: "string option \<Rightarrow> bool" where
  "truthy None = False"
| "truthy (Some s) = (s \<noteq> [])"

subsection \<open>Messages as Baileys delivers them\<close>

record MessageKey =
  remoteJid :: "string option"
  fromMe :: "bool option"
  key_id :: "string option"
  remoteJidAlt :: "string option"

record ExtendedTextMessage =
  ext_text :: "string option"

record MediaMessage =
  caption :: "string option"

record MessageContent =
  conversation :: "string option"
  extendedTextMessage :: "ExtendedTextMessage option"
  imageMessage :: "MediaMessage option"
  videoMessage :: "MediaMessage option"
  documentMessage :: "MediaMessage option"
  audioMessage :: "unit option"

record WAMessage =
  key :: MessageKey
  message :: "MessageContent option"
  messageTimestamp :: "int option"

text \<open>The \<^verbatim>\<open>InboundMessage\<close> interface handed to \<^verbatim>\<open>onMessage\<close>.\<close>

record InboundMessage =
  msg_id :: string
  sender :: string
  pn :: string
  content :: string
  timestamp :: "int option"
  isGroup :: bool

subsection \<open>Calls a handler makes\<close>

text \<open>
  Peers are numbered. A call is one of: the adapter's callbacks \<^verbatim>\<open>onQR\<close>, \<^verbatim>\<open>onStatus\<close>
  and \<^verbatim>\<open>onMessage\<close>; \<^verbatim>\<open>setTimeout\<close> of the reconnect callback with its delay in ms; the
  call of \<^verbatim>\<open>connect()\<close> that callback makes; \<^verbatim>\<open>sendMessage\<close> and \<^verbatim>\<open>end\<close> on the
  library's socket of the given number; \<^verbatim>\<open>JSON.stringify\<close> of an object; \<^verbatim>\<open>send\<close> and
  \<^verbatim>\<open>close\<close> on a peer's socket; \<^verbatim>\<open>close\<close> on the listener. Writing to the console is
  left out.
\<close>

type_synonym peer = nat

datatype call =
    OnQR string
  | OnStatus string
  | OnMessage InboundMessage
  | SetTimeout nat
  | CallConnect
  | SockSendMessage nat js js
  | SockEnd nat
  | Stringify js
  | WsSend peer string
  | WsClose peer
  | WssClose

subsection \<open>Message normalisation: \<^verbatim>\<open>extractMessageContent\<close>\<close>

text \<open>\<^verbatim>\<open>m?.caption\<close> and \<^verbatim>\<open>m?.text\<close>: the field of an optional part.\<close>

definition caption_of :: "MediaMessage option \<Rightarrow> string option" where
  "caption_of m = (case m of None \<Rightarrow> None | Some p \<Rightarrow> caption p)"

definition text_of :: "ExtendedTextMessage option \<Rightarrow> string option" where
  "text_of m = (case m of None \<Rightarrow> None | Some p \<Rightarrow> ext_text p)"

definition extractMessageContent :: "WAMessage \<Rightarrow> string option" where
  "extractMessageContent msg =
     (case message msg of
        None \<Rightarrow> None
      | Some m \<Rightarrow>
          if truthy (conversation m) then conversation m
          else if truthy (text_of (extendedTextMessage m)) then text_of (extendedTextMessage m)
          else if truthy (caption_of (imageMessage m))
            then Some (''[Image] '' @ the (caption_of (imageMessage m)))
          else if truthy (caption_of (videoMessage m))
            then Some (''[Video] '' @ the (caption_of (videoMessage m)))
          else if truthy (caption_of (documentMessage m))
            then Some (''[Document] '' @ the (caption_of (documentMessage m)))
          else if audioMessage m \<noteq> None then Some ''[Voice Message]''
          else None)"

subsection \<open>The \<^verbatim>\<open>messages.upsert\<close> handler\<close>

text \<open>\<^verbatim>\<open>s.endsWith(suf)\<close>\<close>

definition endsWith :: "string \<Rightarrow> string \<Rightarrow> bool" where
  "endsWith s suf = (length suf \<le> length s \<and> drop (length s - length suf) s = suf)"

text \<open>\<^verbatim>\<open>x || ''\<close> on an optional string.\<close>

definition or_empty :: "string option \<Rightarrow> string" where
  "or_empty x = (case x of None \<Rightarrow> [] | Some s \<Rightarrow> s)"

text \<open>The body of the loop over the delivered messages: the calls made for one message.\<close>

definition upsert_one :: "WAMessage \<Rightarrow> call list" where
  "upsert_one msg =
     (if fromMe (key msg) = Some True then []
      else if remoteJid (key msg) = Some ''status@broadcast'' then []
      else (case extractMessageContent msg of
              None \<Rightarrow> []
            | Some c \<Rightarrow>
                if c = [] then []
                else [OnMessage \<lparr>
                  msg_id = or_empty (key_id (key msg)),
                  sender = or_empty (remoteJid (key msg)),
                  pn = or_empty (remoteJidAlt (key msg)),
                  content = c,
                  timestamp = messageTimestamp msg,
                  isGroup = (case remoteJid (key msg) of
                               None \<Rightarrow> False
                             | Some j \<Rightarrow> endsWith j ''@g.us'') \<rparr>]))"

definition messages_upsert :: "WAMessage list \<Rightarrow> string \<Rightarrow> call list" where
  "messages_upsert messages type =
     (if type \<noteq> ''notify'' then [] else concat (map upsert_one messages))"

subsection \<open>The adapter: \<^verbatim>\<open>WhatsAppClient\<close>\<close>

text \<open>
  The two mutable fields of the class. \<open>sock\<close> is \<^verbatim>\<open>null\<close> or the handle of the socket
  that \<^verbatim>\<open>makeWASocket\<close> returned (sockets are numbered in creation order).
\<close>

record WhatsAppClient =
  sock :: "nat option"
  reconnecting :: bool




text \<open>
  \<^verbatim>\<open>connect()\<close> touches no field before its two awaits (loading the credentials, fetching
  the protocol version). When both have resolved it stores the new socket, numbered \<open>n\<close>,
  and registers the handlers.
\<close>

definition connect_resume :: "nat \<Rightarrow> WhatsAppClient \<Rightarrow> WhatsAppClient" where
  "connect_resume n a = a\<lparr>sock := Some n\<rparr>"

text \<open>
  What can be thrown while a command is handled: the adapter's \<^verbatim>\<open>Error('Not connected')\<close>,
  a TypeError of the runtime, the SyntaxError of \<^verbatim>\<open>JSON.parse\<close>, or whatever the library
  rejects a send with.
\<close>

datatype error =
    NotConnected
  | TypeError string
  | SyntaxError string
  | LibraryError string

text \<open>What the library answers to \<^verbatim>\<open>sock.sendMessage\<close>: it resolves, or it rejects.\<close>

datatype lib_outcome = Accepts | Rejects string

definition sendMessage ::
  "lib_outcome \<Rightarrow> WhatsAppClient \<Rightarrow> js \<Rightarrow> js \<Rightarrow> (error + unit) \<times> call list" where
  "sendMessage lib a to txt =
     (case sock a of
        None \<Rightarrow> (Inl NotConnected, [])
      | Some n \<Rightarrow>
          (case lib of
             Accepts \<Rightarrow> (Inr (), [SockSendMessage n to txt])
           | Rejects e \<Rightarrow> (Inl (LibraryError e), [SockSendMessage n to txt])))"


subsection \<open>The adapter in the event loop\<close>










subsection \<open>The relay: \<^verbatim>\<open>BridgeServer\<close>\<close>

text \<open>
  The three fields of the class. \<open>clients\<close> is a JavaScript \<^verbatim>\<open>Set\<close>: no duplicates,
  iterated in insertion order.
\<close>

record BridgeServer =
  wss :: "unit option"
  wa :: "WhatsAppClient option"
  clients :: "peer list"

text \<open>The \<^verbatim>\<open>readyState\<close> of a WebSocket.\<close>

datatype readyState = CONNECTING | OPEN | CLOSING | CLOSED

text \<open>
  \<^verbatim>\<open>v[k]\<close> for a property name that no prototype defines (\<^verbatim>\<open>type\<close>, \<^verbatim>\<open>to\<close>,
  \<^verbatim>\<open>text\<close>): reading it from \<^verbatim>\<open>null\<close> or \<^verbatim>\<open>undefined\<close> throws a TypeError, an
  object gives its own property, every other value gives \<^verbatim>\<open>undefined\<close>.
\<close>

fun get_prop :: "string \<Rightarrow> js \<Rightarrow> error + js" where
  "get_prop k JNull =
     Inl (TypeError (''Cannot read properties of null (reading '' @ [CHR 0x27] @ k @ [CHR 0x27] @ '')''))"
| "get_prop k JUndefined =
     Inl (TypeError (''Cannot read properties of undefined (reading '' @ [CHR 0x27] @ k @ [CHR 0x27] @ '')''))"
| "get_prop k (JObj kvs) = Inr (case map_of kvs k of None \<Rightarrow> JUndefined | Some v \<Rightarrow> v)"
| "get_prop k v = Inr JUndefined"

text \<open>
  \<^verbatim>\<open>String(error)\<close>: the name of the error class, a colon, the message. An error of the
  library is kept as the text \<^verbatim>\<open>String\<close> gives for it.
\<close>

fun String_error :: "error \<Rightarrow> string" where
  "String_error NotConnected = ''Error: Not connected''"
| "String_error (TypeError m) = ''TypeError: '' @ m"
| "String_error (SyntaxError m) = ''SyntaxError: '' @ m"
| "String_error (LibraryError m) = m"

definition handleCommand ::
  "lib_outcome \<Rightarrow> BridgeServer \<Rightarrow> js \<Rightarrow> (error + unit) \<times> call list" where
  "handleCommand lib s cmd =
     (case get_prop ''type'' cmd of
        Inl e \<Rightarrow> (Inl e, [])
      | Inr t \<Rightarrow>
          if t = JStr ''send'' then
            (case wa s of
               None \<Rightarrow> (Inr (), [])
             | Some a \<Rightarrow>
                 (case get_prop ''to'' cmd of
                    Inl e \<Rightarrow> (Inl e, [])
                  | Inr to \<Rightarrow>
                      (case get_prop ''text'' cmd of
                         Inl e \<Rightarrow> (Inl e, [])
                       | Inr txt \<Rightarrow> sendMessage lib a to txt)))
          else (Inr (), []))"

text \<open>The two replies to a command, as the objects given to \<^verbatim>\<open>JSON.stringify\<close>.\<close>

definition sent_reply :: "js \<Rightarrow> js" where
  "sent_reply to = JObj [(''type'', JStr ''sent''), (''to'', to)]"

definition error_reply :: "error \<Rightarrow> js" where
  "error_reply e = JObj [(''type'', JStr ''error''), (''error'', JStr (String_error e))]"

text \<open>\<^verbatim>\<open>ws.send(JSON.stringify(obj))\<close>; \<open>stringify\<close> stands for \<^verbatim>\<open>JSON.stringify\<close>.\<close>

definition send_json :: "(js \<Rightarrow> string) \<Rightarrow> peer \<Rightarrow> js \<Rightarrow> call list" where
  "send_json stringify ws obj = [Stringify obj, WsSend ws (stringify obj)]"

text \<open>
  The handler of a peer's \<^verbatim>\<open>message\<close> event. \<open>parsed\<close> is what
  \<^verbatim>\<open>JSON.parse(data.toString())\<close> does with the peer's data: it returns a value
  (\<open>Inr\<close>) or throws a SyntaxError with a message (\<open>Inl\<close>). \<open>lib\<close> is the library's
  answer should the command reach it. The handler assigns no field of the server or of the
  adapter, so it is a function to the calls it makes.
\<close>

definition ws_on_message ::
  "(js \<Rightarrow> string) \<Rightarrow> lib_outcome \<Rightarrow> BridgeServer \<Rightarrow> peer \<Rightarrow> string + js \<Rightarrow> call list" where
  "ws_on_message stringify lib s ws parsed =
     (case parsed of
        Inl m \<Rightarrow> send_json stringify ws (error_reply (SyntaxError m))
      | Inr cmd \<Rightarrow>
          (case handleCommand lib s cmd of
             (Inl e, cs) \<Rightarrow> cs @ send_json stringify ws (error_reply e)
           | (Inr u, cs) \<Rightarrow>
               (case get_prop ''to'' cmd of
                  Inl e \<Rightarrow> cs @ send_json stringify ws (error_reply e)
                | Inr to \<Rightarrow> cs @ send_json stringify ws (sent_reply to))))"

text \<open>
  \<^verbatim>\<open>broadcast\<close>. \<open>rs\<close> gives the \<^verbatim>\<open>readyState\<close> of each peer's socket at the time of the
  call.
\<close>

definition broadcast ::
  "(peer \<Rightarrow> readyState) \<Rightarrow> (js \<Rightarrow> string) \<Rightarrow> BridgeServer \<Rightarrow> js \<Rightarrow> call list" where
  "broadcast rs stringify s msg =
     Stringify msg #
       concat (map (\<lambda>c. if rs c = OPEN then [WsSend c (stringify msg)] else []) (clients s))"

text \<open>The three events the adapter's callbacks broadcast.\<close>

definition message_event :: "InboundMessage \<Rightarrow> js" where
  "message_event m =
     JObj [(''type'', JStr ''message''), (''id'', JStr (msg_id m)), (''sender'', JStr (sender m)),
           (''pn'', JStr (pn m)), (''content'', JStr (content m)),
           (''timestamp'', (case timestamp m of None \<Rightarrow> JUndefined | Some t \<Rightarrow> JNum t)),
           (''isGroup'', JBool (isGroup m))]"

definition qr_event :: "string \<Rightarrow> js" where
  "qr_event q = JObj [(''type'', JStr ''qr''), (''qr'', JStr q)]"

definition status_event :: "string \<Rightarrow> js" where
  "status_event st = JObj [(''type'', JStr ''status''), (''status'', JStr st)]"

text \<open>
  The callbacks \<^verbatim>\<open>start()\<close> gives the adapter: a call of \<^verbatim>\<open>onMessage\<close>, \<^verbatim>\<open>onQR\<close> or
  \<^verbatim>\<open>onStatus\<close> becomes a broadcast; any other call is the adapter's own.
\<close>

definition relay ::
  "(peer \<Rightarrow> readyState) \<Rightarrow> (js \<Rightarrow> string) \<Rightarrow> BridgeServer \<Rightarrow> call \<Rightarrow> call list" where
  "relay rs stringify s c =
     (case c of
        OnMessage m \<Rightarrow> broadcast rs stringify s (message_event m)
      | OnQR q \<Rightarrow> broadcast rs stringify s (qr_event q)
      | OnStatus st \<Rightarrow> broadcast rs stringify s (status_event st)
      | _ \<Rightarrow> [c])"

text \<open>The server as its constructor leaves it.\<close>

definition new_server :: BridgeServer where
  "new_server = \<lparr>wss = None, wa = None, clients = []\<rparr>"

text \<open>
  \<^verbatim>\<open>start()\<close> up to its await of \<^verbatim>\<open>connect()\<close>: the listener and the adapter exist, the
  adapter has no socket yet.
\<close>

definition start :: "BridgeServer \<Rightarrow> BridgeServer" where
  "start s = s\<lparr>wss := Some (), wa := Some \<lparr>sock = None, reconnecting = False\<rparr>\<rparr>"

text \<open>The handlers of a peer's connection, and of its \<^verbatim>\<open>close\<close> and \<^verbatim>\<open>error\<close> events.\<close>

definition on_connection :: "BridgeServer \<Rightarrow> peer \<Rightarrow> BridgeServer" where
  "on_connection s ws = s\<lparr>clients := (if ws \<in> set (clients s) then clients s else clients s @ [ws])\<rparr>"

definition ws_on_close :: "BridgeServer \<Rightarrow> peer \<Rightarrow> BridgeServer" where
  "ws_on_close s ws = s\<lparr>clients := removeAll ws (clients s)\<rparr>"

definition ws_on_error :: "BridgeServer \<Rightarrow> peer \<Rightarrow> BridgeServer" where
  "ws_on_error s ws = s\<lparr>clients := removeAll ws (clients s)\<rparr>"


text \<open>The peers a list of calls sends data to, with the data, in order.\<close>

definition sends :: "call list \<Rightarrow> (peer \<times> string) list" where
  "sends cs = concat (map (\<lambda>c. case c of WsSend p d \<Rightarrow> [(p, d)] | _ \<Rightarrow> []) cs)"

text \<open>The calls a list makes on the adapter's socket.\<close>

definition outbound :: "call list \<Rightarrow> call list" where
  "outbound cs = filter (\<lambda>c. case c of SockSendMessage n to txt \<Rightarrow> True | _ \<Rightarrow> False) cs"

text \<open>A syntactically valid send command: its type is send, its to and text are strings.\<close>

fun is_string :: "js \<Rightarrow> bool" where
  "is_string (JStr t) = True"
| "is_string v = False"

definition valid_send :: "js \<Rightarrow> bool" where
  "valid_send cmd =
     (get_prop ''type'' cmd = Inr (JStr ''send'') \<and>
      (case get_prop ''to'' cmd of Inr v \<Rightarrow> is_string v | Inl e \<Rightarrow> False) \<and>
      (case get_prop ''text'' cmd of Inr v \<Rightarrow> is_string v | Inl e \<Rightarrow> False))"

subsection \<open>Notions the statements below use\<close>

text \<open>A message the handler skips before it looks at the payload.\<close>

definition self_or_status :: "WAMessage \<Rightarrow> bool" where
  "self_or_status msg =
     (fromMe (key msg) = Some True \<or> remoteJid (key msg) = Some ''status@broadcast'')"

text \<open>The \<^verbatim>\<open>InboundMessage\<close> built from a message and its normalised content.\<close>

definition inbound :: "WAMessage \<Rightarrow> string \<Rightarrow> InboundMessage" where
  "inbound msg c =
     \<lparr>msg_id = or_empty (key_id (key msg)),
      sender = or_empty (remoteJid (key msg)),
      pn = or_empty (remoteJidAlt (key msg)),
      content = c,
      timestamp = messageTimestamp msg,
      isGroup = (case remoteJid (key msg) of None \<Rightarrow> False | Some j \<Rightarrow> endsWith j ''@g.us'')\<rparr>"

text \<open>
  The normalisation as the specification words it: a fixed list of candidates (plain text
  body, quoted-reply text, image caption, video caption, document caption, voice note), of
  which the first that applies is the content. A text or caption applies when it is there
  and not empty; the voice note applies when the audio part is there.
\<close>

definition present :: "string option \<Rightarrow> string option" where
  "present x = (if truthy x then x else None)"

fun first_of :: "'a option list \<Rightarrow> 'a option" where
  "first_of [] = None"
| "first_of (None # xs) = first_of xs"
| "first_of (Some x # xs) = Some x"

definition precedence :: "MessageContent \<Rightarrow> string option list" where
  "precedence m =
     [present (conversation m),
      present (text_of (extendedTextMessage m)),
      map_option (\<lambda>c. ''[Image] '' @ c) (present (caption_of (imageMessage m))),
      map_option (\<lambda>c. ''[Video] '' @ c) (present (caption_of (videoMessage m))),
      map_option (\<lambda>c. ''[Document] '' @ c) (present (caption_of (documentMessage m))),
      map_option (\<lambda>u. ''[Voice Message]'') (audioMessage m)]"

definition normalize_spec :: "WAMessage \<Rightarrow> string option" where
  "normalize_spec msg = (case message msg of None \<Rightarrow> None | Some m \<Rightarrow> first_of (precedence m))"



text \<open>The objects a list of calls serialises, in order.\<close>

definition stringified :: "call list \<Rightarrow> js list" where
  "stringified cs = concat (map (\<lambda>c. case c of Stringify v \<Rightarrow> [v] | _ \<Rightarrow> []) cs)"

text \<open>The peers \<^verbatim>\<open>broadcast\<close> writes to: the registered ones whose socket is open.\<close>

definition recipients :: "(peer \<Rightarrow> readyState) \<Rightarrow> BridgeServer \<Rightarrow> peer list" where
  "recipients rs s = filter (\<lambda>c. rs c = OPEN) (clients s)"


subsection \<open>Example inputs\<close>

definition sample_key :: MessageKey where
  "sample_key = \<lparr>remoteJid = Some ''491234@s.whatsapp.net'', fromMe = Some False,
                  key_id = Some ''3EB0'', remoteJidAlt = None\<rparr>"

definition empty_content :: MessageContent where
  "empty_content = \<lparr>conversation = None, extendedTextMessage = None, imageMessage = None,
                     videoMessage = None, documentMessage = None, audioMessage = None\<rparr>"

definition image_msg :: "string option \<Rightarrow> WAMessage" where
  "image_msg c = \<lparr>key = sample_key,
                   message = Some (empty_content\<lparr>imageMessage := Some \<lparr>caption = c\<rparr>\<rparr>),
                   messageTimestamp = Some 1700000000\<rparr>"

definition voice_msg :: WAMessage where
  "voice_msg = \<lparr>key = sample_key,
                 message = Some (empty_content\<lparr>audioMessage := Some ()\<rparr>),
                 messageTimestamp = Some 1700000000\<rparr>"

definition text_msg :: "MessageKey \<Rightarrow> WAMessage" where
  "text_msg k = \<lparr>key = k,
                  message = Some (empty_content\<lparr>conversation := Some ''hello''\<rparr>),
                  messageTimestamp = Some 1700000000\<rparr>"

text \<open>The command \<^verbatim>\<open>{"type":"send","to":"1234@x","text":"hi"}\<close>, parsed.\<close>

definition send_cmd :: js where
  "send_cmd = JObj [(''type'', JStr ''send''), (''to'', JStr ''1234@x''), (''text'', JStr ''hi'')]"

text \<open>A stand-in for \<^verbatim>\<open>JSON.stringify\<close> in the examples: it keeps the type tag only.\<close>

definition type_tag :: "js \<Rightarrow> string" where
  "type_tag v = (case get_prop ''type'' v of Inr (JStr t) \<Rightarrow> t | _ \<Rightarrow> [])"

text \<open>Two peers registered, the first with an open socket, the second closing.\<close>

definition two_peers :: BridgeServer where
  "two_peers = on_connection (on_connection (start new_server) 1) 2"

text \<open>The same server once the adapter's \<^verbatim>\<open>connect()\<close> has stored its first socket.\<close>

definition online :: BridgeServer where
  "online = two_peers\<lparr>wa := Some (connect_resume 0 \<lparr>sock = None, reconnecting = False\<rparr>)\<rparr>"

text \<open>A command of a kind the server does not know.\<close>

definition ping_cmd :: js where
  "ping_cmd = JObj [(''type'', JStr ''ping''), (''to'', JStr ''1234@x'')]"

definition first_open :: "peer \<Rightarrow> readyState" where
  "first_open p = (if p = 1 then OPEN else CLOSING)"

section \<open>Message normalisation and filtering\<close>

lemma truthy_Some: "truthy x \<Longrightarrow> \<exists>s. x = Some s \<and> s \<noteq> []"
  by (cases x) auto

lemma unit_option_cases: "(x :: unit option) \<noteq> Some () \<Longrightarrow> x = None"
  by (cases x) auto

lemma extract_refines: "extractMessageContent msg = normalize_spec msg"
  by (auto simp: extractMessageContent_def normalize_spec_def precedence_def present_def
      split: option.splits dest: truthy_Some unit_option_cases)

lemma extract_nonempty: "extractMessageContent msg \<noteq> Some []"
  by (auto simp: extractMessageContent_def split: option.splits if_splits dest: truthy_Some)

lemma upsert_one_kept:
  "\<not> self_or_status msg \<Longrightarrow>
   upsert_one msg =
     (case extractMessageContent msg of None \<Rightarrow> [] | Some c \<Rightarrow> [OnMessage (inbound msg c)])"
  using extract_nonempty [of msg]
  by (auto simp: upsert_one_def self_or_status_def inbound_def split: option.splits)

lemma upsert_one_dropped: "self_or_status msg \<Longrightarrow> upsert_one msg = []"
  by (auto simp: upsert_one_def self_or_status_def)

lemma upsert_filter:
  "concat (map upsert_one ms) = concat (map upsert_one (filter (\<lambda>m. \<not> self_or_status m) ms))"
  by (induction ms) (auto simp: upsert_one_dropped)

lemma extract_image:
  assumes "message msg = Some m" "\<not> truthy (conversation m)"
    "\<not> truthy (text_of (extendedTextMessage m))" "caption_of (imageMessage m) = Some c" "c \<noteq> []"
  shows "extractMessageContent msg = Some (''[Image] '' @ c)"
  using assms by (simp add: extractMessageContent_def)

text \<open>
  Claim C3. \<^verbatim>\<open>extractMessageContent\<close> computes the content by the fixed precedence of the
  specification: it returns the first candidate that applies among plain text body,
  quoted-reply text, \<^verbatim>\<open>[Image] caption\<close>, \<^verbatim>\<open>[Video] caption\<close>, \<^verbatim>\<open>[Document] caption\<close> and
  the literal \<^verbatim>\<open>[Voice Message]\<close>, and nothing when none applies. A message with a
  captioned image and no text (neither a body nor a quoted-reply text) gives exactly
  \<^verbatim>\<open>[Image] caption\<close>; a message with only an audio part gives exactly
  \<^verbatim>\<open>[Voice Message]\<close>. For a message that is neither self-sent nor from the status channel
  the handler calls \<^verbatim>\<open>onMessage\<close> once with that content, and not at all when there is
  none.
\<close>

theorem normalization_precedence:
  "extractMessageContent msg = normalize_spec msg
 \<and> (message msg = Some m \<and> \<not> truthy (conversation m)
      \<and> \<not> truthy (text_of (extendedTextMessage m))
      \<and> caption_of (imageMessage m) = Some c \<and> c \<noteq> [] \<longrightarrow>
        extractMessageContent msg = Some (''[Image] '' @ c))
 \<and> (message msg = Some (empty_content\<lparr>audioMessage := Some ()\<rparr>) \<longrightarrow>
        extractMessageContent msg = Some ''[Voice Message]'')
 \<and> (\<not> self_or_status msg \<longrightarrow>
        upsert_one msg =
          (case normalize_spec msg of None \<Rightarrow> [] | Some c' \<Rightarrow> [OnMessage (inbound msg c')]))"
proof -
  have voice: "extractMessageContent msg = Some ''[Voice Message]''"
    if "message msg = Some (empty_content\<lparr>audioMessage := Some ()\<rparr>)"
    using that by (simp add: extractMessageContent_def empty_content_def caption_of_def text_of_def)
  have kept: "upsert_one msg =
      (case normalize_spec msg of None \<Rightarrow> [] | Some c' \<Rightarrow> [OnMessage (inbound msg c')])"
    if "\<not> self_or_status msg"
    using upsert_one_kept [OF that] by (simp add: extract_refines)
  from extract_refines [of msg] extract_image [of msg m c] voice kept show ?thesis
    by blast
qed

theorem normalization_precedence_witness:
  "message (image_msg (Some ''cat'')) = Some (empty_content\<lparr>imageMessage := Some \<lparr>caption = Some ''cat''\<rparr>\<rparr>)
 \<and> \<not> self_or_status (image_msg (Some ''cat''))
 \<and> extractMessageContent (image_msg (Some ''cat'')) = Some ''[Image] cat''
 \<and> upsert_one (image_msg (Some ''cat''))
      = [OnMessage (inbound (image_msg (Some ''cat'')) ''[Image] cat'')]
 \<and> extractMessageContent voice_msg = Some ''[Voice Message]''"
proof -
  let ?img = "image_msg (Some ''cat'')"
  let ?m = "empty_content\<lparr>imageMessage := Some \<lparr>caption = Some ''cat''\<rparr>\<rparr>"
  note img = normalization_precedence [of ?img ?m "''cat''"]
  note voice = normalization_precedence [of voice_msg]
  have m: "message ?img = Some ?m"
    by (simp add: image_msg_def)
  have no_text: "\<not> truthy (conversation ?m)" "\<not> truthy (text_of (extendedTextMessage ?m))"
    by (simp_all add: empty_content_def text_of_def)
  have cap: "caption_of (imageMessage ?m) = Some ''cat''"
    by (simp add: caption_of_def)
  have kept: "\<not> self_or_status ?img"
    by (simp add: self_or_status_def image_msg_def sample_key_def)
  have v: "message voice_msg = Some (empty_content\<lparr>audioMessage := Some ()\<rparr>)"
    by (simp add: voice_msg_def)
  from img m no_text cap have e: "extractMessageContent ?img = Some (''[Image] '' @ ''cat'')"
    by blast
  from img have "normalize_spec ?img = extractMessageContent ?img"
    by simp
  with e have n: "normalize_spec ?img = Some ''[Image] cat''"
    by simp
  from img kept have "upsert_one ?img =
      (case normalize_spec ?img of None \<Rightarrow> [] | Some c' \<Rightarrow> [OnMessage (inbound ?img c')])"
    by blast
  with n have u: "upsert_one ?img = [OnMessage (inbound ?img ''[Image] cat'')]"
    by simp
  from voice v have "extractMessageContent voice_msg = Some ''[Voice Message]''"
    by blast
  with m kept e u show ?thesis by simp
qed

text \<open>
  Claim C10. A message whose image, video and document parts carry no caption or an empty
  one, and which has no text body, no quoted-reply text and no audio part, has no content:
  \<^verbatim>\<open>extractMessageContent\<close> returns \<^verbatim>\<open>null\<close> and the handler makes no call at all for it,
  so no bare \<^verbatim>\<open>[Image]\<close>, \<^verbatim>\<open>[Video]\<close> or \<^verbatim>\<open>[Document]\<close> marker is produced.
\<close>

theorem captionless_media_dropped:
  assumes "message msg = Some m"
    and "\<not> truthy (conversation m)"
    and "\<not> truthy (text_of (extendedTextMessage m))"
    and "audioMessage m = None"
    and "\<not> truthy (caption_of (imageMessage m))"
    and "\<not> truthy (caption_of (videoMessage m))"
    and "\<not> truthy (caption_of (documentMessage m))"
  shows "extractMessageContent msg = None \<and> upsert_one msg = [] \<and> messages_upsert [msg] ty = []"
proof -
  have none: "extractMessageContent msg = None"
    using assms by (simp add: extractMessageContent_def)
  then have one: "upsert_one msg = []"
    by (simp add: upsert_one_def)
  then have "messages_upsert [msg] ty = []"
    by (simp add: messages_upsert_def)
  with none one show ?thesis by simp
qed

theorem captionless_media_dropped_witness:
  "imageMessage (empty_content\<lparr>imageMessage := Some \<lparr>caption = Some []\<rparr>\<rparr>) = Some \<lparr>caption = Some []\<rparr>
 \<and> extractMessageContent (image_msg (Some [])) = None
 \<and> messages_upsert [image_msg (Some [])] ''notify'' = []
 \<and> extractMessageContent (image_msg None) = None
 \<and> messages_upsert [image_msg None] ''notify'' = []"
  using captionless_media_dropped [of "image_msg (Some [])"
          "empty_content\<lparr>imageMessage := Some \<lparr>caption = Some []\<rparr>\<rparr>" "''notify''"]
        captionless_media_dropped [of "image_msg None"
          "empty_content\<lparr>imageMessage := Some \<lparr>caption = None\<rparr>\<rparr>" "''notify''"]
  by (simp add: image_msg_def empty_content_def caption_of_def text_of_def)

text \<open>
  Claim C7. A message whose key says \<^verbatim>\<open>fromMe\<close>, or whose remote address is
  \<^verbatim>\<open>status@broadcast\<close>, makes the handler call nothing, whatever its payload and
  timestamp are: the payload is not consulted. Over a whole delivery the calls are those
  of the remaining messages, and a delivery of such messages only makes no call.
\<close>

theorem self_and_status_dropped:
  "(fromMe k = Some True \<or> remoteJid k = Some ''status@broadcast'' \<longrightarrow>
      upsert_one \<lparr>key = k, message = payload, messageTimestamp = t\<rparr> = [])
 \<and> messages_upsert ms ty = messages_upsert (filter (\<lambda>m. \<not> self_or_status m) ms) ty
 \<and> ((\<forall>m\<in>set ms. self_or_status m) \<longrightarrow> messages_upsert ms ty = [])"
proof -
  have 1: "upsert_one \<lparr>key = k, message = payload, messageTimestamp = t\<rparr> = []"
    if "fromMe k = Some True \<or> remoteJid k = Some ''status@broadcast''"
    using that by (auto simp: upsert_one_def)
  have 2: "messages_upsert ms ty = messages_upsert (filter (\<lambda>m. \<not> self_or_status m) ms) ty"
    using upsert_filter [of ms] by (simp add: messages_upsert_def)
  have 3: "messages_upsert ms ty = []" if "\<forall>m\<in>set ms. self_or_status m"
  proof -
    from that have "filter (\<lambda>m. \<not> self_or_status m) ms = []" by (simp add: filter_empty_conv)
    with 2 show ?thesis by (simp add: messages_upsert_def)
  qed
  from 1 2 3 show ?thesis by blast
qed

theorem self_and_status_dropped_witness:
  "fromMe (sample_key\<lparr>fromMe := Some True\<rparr>) = Some True
 \<and> upsert_one (text_msg (sample_key\<lparr>fromMe := Some True\<rparr>)) = []
 \<and> upsert_one (text_msg (sample_key\<lparr>remoteJid := Some ''status@broadcast''\<rparr>)) = []
 \<and> upsert_one (text_msg sample_key) = [OnMessage (inbound (text_msg sample_key) ''hello'')]
 \<and> messages_upsert [text_msg (sample_key\<lparr>fromMe := Some True\<rparr>), text_msg sample_key] ''notify''
      = [OnMessage (inbound (text_msg sample_key) ''hello'')]"
  using self_and_status_dropped [of "sample_key\<lparr>fromMe := Some True\<rparr>"
          "Some (empty_content\<lparr>conversation := Some ''hello''\<rparr>)" "Some 1700000000"
          "[text_msg (sample_key\<lparr>fromMe := Some True\<rparr>), text_msg sample_key]" "''notify''"]
        self_and_status_dropped [of "sample_key\<lparr>remoteJid := Some ''status@broadcast''\<rparr>"
          "Some (empty_content\<lparr>conversation := Some ''hello''\<rparr>)" "Some 1700000000" "[]" "''notify''"]
  by (simp add: text_msg_def sample_key_def self_or_status_def messages_upsert_def upsert_one_def
      extractMessageContent_def empty_content_def inbound_def)

section \<open>Reconnecting after a close\<close>























section \<open>Commands from peers\<close>

lemma sends_simps:
  "sends [] = []"
  "sends (WsSend p d # cs) = (p, d) # sends cs"
  "sends (Stringify v # cs) = sends cs"
  "sends (SockSendMessage n dst body # cs) = sends cs"
  "sends (xs @ ys) = sends xs @ sends ys"
  by (simp_all add: sends_def)

lemma outbound_simps:
  "outbound [] = []"
  "outbound (WsSend p d # cs) = outbound cs"
  "outbound (Stringify v # cs) = outbound cs"
  "outbound (SockSendMessage n dst body # cs) = SockSendMessage n dst body # outbound cs"
  "outbound (xs @ ys) = outbound xs @ outbound ys"
  by (simp_all add: outbound_def)

lemma sends_send_json: "sends (send_json f ws obj) = [(ws, f obj)]"
  by (simp add: send_json_def sends_simps)


lemma sends_sendMessage: "sends (snd (sendMessage lib a dst body)) = []"
  by (simp add: sendMessage_def sends_simps split: option.splits lib_outcome.splits)

lemma sends_handleCommand: "sends (snd (handleCommand lib s cmd)) = []"
  by (simp add: handleCommand_def sends_sendMessage sends_simps split: sum.splits option.splits)




lemma is_string_JStr: "is_string v \<longleftrightarrow> (\<exists>t. v = JStr t)"
  by (cases v) auto

lemma valid_send_props:
  assumes "valid_send cmd"
  shows "\<exists>t x. get_prop ''type'' cmd = Inr (JStr ''send'') \<and> get_prop ''to'' cmd = Inr (JStr t)
           \<and> get_prop ''text'' cmd = Inr (JStr x)"
  using assms by (auto simp: valid_send_def is_string_JStr split: sum.splits)

lemma get_prop_to_of_type: "get_prop ''type'' cmd = Inr t \<Longrightarrow> \<exists>v. get_prop ''to'' cmd = Inr v"
  by (cases cmd) auto

lemma get_prop_text_of_type: "get_prop ''type'' cmd = Inr t \<Longrightarrow> \<exists>v. get_prop ''text'' cmd = Inr v"
  by (cases cmd) auto

lemma get_prop_throws: "get_prop k cmd = Inl e \<Longrightarrow> cmd = JNull \<or> cmd = JUndefined"
  by (cases cmd) auto

lemma handleCommand_valid:
  assumes "get_prop ''type'' cmd = Inr (JStr ''send'')" "get_prop ''to'' cmd = Inr dst"
    "get_prop ''text'' cmd = Inr body"
  shows "handleCommand lib s cmd =
           (case wa s of None \<Rightarrow> (Inr (), []) | Some a \<Rightarrow> sendMessage lib a dst body)"
  using assms by (simp add: handleCommand_def split: option.splits)

lemma handleCommand_no_action:
  assumes "get_prop ''type'' cmd = Inr t" "t \<noteq> JStr ''send'' \<or> wa s = None"
  shows "handleCommand lib s cmd = (Inr (), [])"
  using assms by (auto simp: handleCommand_def split: option.splits)

lemma handleCommand_throws:
  assumes "fst (handleCommand lib s cmd) = Inl e"
  shows "cmd = JNull \<or> cmd = JUndefined \<or>
         (\<exists>a dst body. wa s = Some a \<and> get_prop ''type'' cmd = Inr (JStr ''send'')
            \<and> get_prop ''to'' cmd = Inr dst \<and> get_prop ''text'' cmd = Inr body
            \<and> fst (sendMessage lib a dst body) = Inl e)"
proof (cases "get_prop ''type'' cmd")
  case (Inl e')
  then show ?thesis by (auto dest: get_prop_throws)
next
  case (Inr t)
  from get_prop_to_of_type [OF Inr] obtain dst where d: "get_prop ''to'' cmd = Inr dst"
    by blast
  from get_prop_text_of_type [OF Inr] obtain body where b: "get_prop ''text'' cmd = Inr body"
    by blast
  from assms Inr d b show ?thesis
    by (auto simp: handleCommand_def split: option.splits if_splits)
qed

text \<open>The one reply to a parsed command, and the calls that reach the library.\<close>

lemma reply_of_parsed:
  "sends (ws_on_message f lib s ws (Inr cmd)) =
     [(ws, f (case fst (handleCommand lib s cmd) of
                Inl e \<Rightarrow> error_reply e
              | Inr u \<Rightarrow> (case get_prop ''to'' cmd of
                            Inl e \<Rightarrow> error_reply e
                          | Inr dst \<Rightarrow> sent_reply dst)))]"
  using sends_handleCommand [of lib s cmd]
  by (cases "handleCommand lib s cmd")
     (auto simp: ws_on_message_def sends_send_json sends_simps split: sum.splits)

lemma malformed_reply:
  "ws_on_message f lib s ws (Inl m) =
     [Stringify (error_reply (SyntaxError m)), WsSend ws (f (error_reply (SyntaxError m)))]"
  by (simp add: ws_on_message_def send_json_def)



text \<open>
  Claim C5. A valid send command is answered with exactly one message, sent to the peer
  it came from and to no other: the \<^verbatim>\<open>sent\<close> reply naming the command's destination when
  handling it succeeded, the \<^verbatim>\<open>error\<close> reply carrying the error when it failed. With an
  adapter present, handling succeeds exactly when the adapter holds a socket and the
  library accepts the message. Data that is not JSON is answered with one \<^verbatim>\<open>error\<close> reply
  to the same peer; the handler then makes no other call than serialising and sending
  that reply, and in particular none on the adapter.
\<close>

theorem one_reply_to_sender:
  "(valid_send cmd \<longrightarrow>
      (\<exists>t. get_prop ''to'' cmd = Inr (JStr t) \<and>
           sends (ws_on_message f lib s ws (Inr cmd))
             = [(ws, f (case fst (handleCommand lib s cmd) of
                          Inl e \<Rightarrow> error_reply e | Inr u \<Rightarrow> sent_reply (JStr t)))])
    \<and> (\<forall>a. wa s = Some a \<longrightarrow>
          (fst (handleCommand lib s cmd) = Inr () \<longleftrightarrow> sock a \<noteq> None \<and> lib = Accepts)))
 \<and> ws_on_message f lib s ws (Inl m)
      = [Stringify (error_reply (SyntaxError m)), WsSend ws (f (error_reply (SyntaxError m)))]
 \<and> sends (ws_on_message f lib s ws (Inl m)) = [(ws, f (error_reply (SyntaxError m)))]
 \<and> outbound (ws_on_message f lib s ws (Inl m)) = []"
proof -
  have 1: "\<exists>t. get_prop ''to'' cmd = Inr (JStr t) \<and>
           sends (ws_on_message f lib s ws (Inr cmd))
             = [(ws, f (case fst (handleCommand lib s cmd) of
                          Inl e \<Rightarrow> error_reply e | Inr u \<Rightarrow> sent_reply (JStr t)))]"
    if "valid_send cmd"
  proof -
    from valid_send_props [OF that] obtain t where "get_prop ''to'' cmd = Inr (JStr t)"
      by blast
    then show ?thesis by (simp add: reply_of_parsed split: sum.splits)
  qed
  have 2: "fst (handleCommand lib s cmd) = Inr () \<longleftrightarrow> sock a \<noteq> None \<and> lib = Accepts"
    if "valid_send cmd" "wa s = Some a" for a
  proof -
    from valid_send_props [OF that(1)] obtain t x where
      p: "get_prop ''type'' cmd = Inr (JStr ''send'')" "get_prop ''to'' cmd = Inr (JStr t)"
         "get_prop ''text'' cmd = Inr (JStr x)" by blast
    show ?thesis
      using that(2)
      by (auto simp: handleCommand_valid [OF p] sendMessage_def
          split: option.splits lib_outcome.splits)
  qed
  have 3: "sends (ws_on_message f lib s ws (Inl m)) = [(ws, f (error_reply (SyntaxError m)))]"
    by (simp add: malformed_reply sends_simps)
  have 4: "outbound (ws_on_message f lib s ws (Inl m)) = []"
    by (simp add: malformed_reply outbound_simps)
  from 1 2 3 4 malformed_reply [of f lib s ws m] show ?thesis by blast
qed

theorem one_reply_to_sender_witness:
  "valid_send send_cmd
 \<and> wa online = Some \<lparr>sock = Some 0, reconnecting = False\<rparr>
 \<and> sends (ws_on_message type_tag Accepts online 1 (Inr send_cmd)) = [(1, ''sent'')]
 \<and> sends (ws_on_message type_tag (Rejects ''timed out'') online 1 (Inr send_cmd)) = [(1, ''error'')]
 \<and> sends (ws_on_message type_tag Accepts online 2 (Inl ''Unexpected token'')) = [(2, ''error'')]
 \<and> outbound (ws_on_message type_tag Accepts online 2 (Inl ''Unexpected token'')) = []"
proof -
  note ok = one_reply_to_sender [of send_cmd type_tag Accepts online 1 "''Unexpected token''"]
  note ko = one_reply_to_sender [of send_cmd type_tag "Rejects ''timed out''" online 1]
  note bad = one_reply_to_sender [of send_cmd type_tag Accepts online 2 "''Unexpected token''"]
  have v: "valid_send send_cmd"
    by (simp add: valid_send_def send_cmd_def)
  have w: "wa online = Some \<lparr>sock = Some 0, reconnecting = False\<rparr>"
    by (simp add: online_def connect_resume_def)
  have dst: "get_prop ''to'' send_cmd = Inr (JStr t) \<longleftrightarrow> t = ''1234@x''" for t
    by (auto simp: send_cmd_def)
  from ok v w have "fst (handleCommand Accepts online send_cmd) = Inr ()"
    by simp
  with ok v dst have 1: "sends (ws_on_message type_tag Accepts online 1 (Inr send_cmd))
      = [(1, type_tag (sent_reply (JStr ''1234@x'')))]"
    by auto
  from ko v w have "fst (handleCommand (Rejects ''timed out'') online send_cmd) \<noteq> Inr ()"
    by simp
  then obtain e where "fst (handleCommand (Rejects ''timed out'') online send_cmd) = Inl e"
    by (cases "fst (handleCommand (Rejects ''timed out'') online send_cmd)") auto
  with ko v have 2: "sends (ws_on_message type_tag (Rejects ''timed out'') online 1 (Inr send_cmd))
      = [(1, type_tag (error_reply e))]"
    by auto
  from bad have 3:
    "sends (ws_on_message type_tag Accepts online 2 (Inl ''Unexpected token''))
       = [(2, type_tag (error_reply (SyntaxError ''Unexpected token'')))]"
    "outbound (ws_on_message type_tag Accepts online 2 (Inl ''Unexpected token'')) = []"
    by blast+
  have tags: "type_tag (sent_reply x) = ''sent''" "type_tag (error_reply y) = ''error''" for x y
    by (simp_all add: type_tag_def sent_reply_def error_reply_def)
  from v w 1 2 3 tags show ?thesis by simp
qed

text \<open>
  Claim C9, as stated, fails for the JSON text \<^verbatim>\<open>null\<close>. It parses, reading its
  \<^verbatim>\<open>type\<close> throws a TypeError inside \<^verbatim>\<open>handleCommand\<close>, and the peer is sent the
  \<^verbatim>\<open>error\<close> reply although nothing was forwarded to the adapter.
\<close>

theorem null_command_counterexample:
  "sends (ws_on_message type_tag Accepts online 1 (Inr JNull)) = [(1, ''error'')]
 \<and> snd (handleCommand Accepts online JNull) = []
 \<and> outbound (ws_on_message type_tag Accepts online 1 (Inr JNull)) = []
 \<and> sends (ws_on_message type_tag Accepts new_server 1 (Inr JNull)) = [(1, ''error'')]"
  by (simp add: ws_on_message_def handleCommand_def send_json_def error_reply_def type_tag_def
      sends_def outbound_def)

text \<open>
  Claim C9, amended. Every peer message that parses as JSON is answered with exactly one
  message, to the peer it came from: the \<^verbatim>\<open>sent\<close> reply naming the command's \<^verbatim>\<open>to\<close>
  field whenever command handling resolves, and the \<^verbatim>\<open>error\<close> reply only when command
  handling throws. Handling resolves without any call when the \<^verbatim>\<open>type\<close> field can be read
  and is not \<^verbatim>\<open>send\<close>, or when there is no adapter. It throws only when forwarding to the
  adapter throws, or when the parsed value is \<^verbatim>\<open>null\<close>, whose \<^verbatim>\<open>type\<close> field cannot be
  read (\<^verbatim>\<open>undefined\<close>, the other such value, is not JSON).
\<close>

theorem reply_to_parsed_command:
  "(\<exists>r. sends (ws_on_message f lib s ws (Inr cmd)) = [(ws, f r)]
       \<and> (case fst (handleCommand lib s cmd) of
            Inl e \<Rightarrow> r = error_reply e
          | Inr u \<Rightarrow> (\<exists>dst. get_prop ''to'' cmd = Inr dst \<and> r = sent_reply dst)))
 \<and> (\<forall>t. get_prop ''type'' cmd = Inr t \<and> (t \<noteq> JStr ''send'' \<or> wa s = None) \<longrightarrow>
        handleCommand lib s cmd = (Inr (), []))
 \<and> (\<forall>e. fst (handleCommand lib s cmd) = Inl e \<longrightarrow>
        cmd = JNull \<or> cmd = JUndefined \<or>
        (\<exists>a dst body. wa s = Some a \<and> get_prop ''type'' cmd = Inr (JStr ''send'')
            \<and> get_prop ''to'' cmd = Inr dst \<and> get_prop ''text'' cmd = Inr body
            \<and> fst (sendMessage lib a dst body) = Inl e))"
proof -
  have 1: "\<exists>r. sends (ws_on_message f lib s ws (Inr cmd)) = [(ws, f r)]
       \<and> (case fst (handleCommand lib s cmd) of
            Inl e \<Rightarrow> r = error_reply e
          | Inr u \<Rightarrow> (\<exists>dst. get_prop ''to'' cmd = Inr dst \<and> r = sent_reply dst))"
  proof (cases "fst (handleCommand lib s cmd)")
    case (Inl e)
    then show ?thesis by (simp add: reply_of_parsed)
  next
    case (Inr u)
    have "\<exists>t. get_prop ''type'' cmd = Inr t"
      using Inr by (cases "get_prop ''type'' cmd") (auto simp: handleCommand_def)
    then obtain dst where "get_prop ''to'' cmd = Inr dst"
      using get_prop_to_of_type by blast
    with Inr show ?thesis by (simp add: reply_of_parsed)
  qed
  from 1 handleCommand_no_action [of cmd _ s lib] handleCommand_throws [of lib s cmd]
  show ?thesis by blast
qed

theorem reply_to_parsed_command_witness:
  "get_prop ''type'' ping_cmd = Inr (JStr ''ping'')
 \<and> JStr ''ping'' \<noteq> JStr ''send''
 \<and> handleCommand Accepts online ping_cmd = (Inr (), [])
 \<and> sends (ws_on_message type_tag Accepts online 1 (Inr ping_cmd)) = [(1, ''sent'')]
 \<and> wa new_server = None
 \<and> handleCommand Accepts new_server send_cmd = (Inr (), [])
 \<and> sends (ws_on_message type_tag Accepts new_server 1 (Inr send_cmd)) = [(1, ''sent'')]"
proof -
  note ping = reply_to_parsed_command [of type_tag Accepts online 1 ping_cmd]
  note early = reply_to_parsed_command [of type_tag Accepts new_server 1 send_cmd]
  have ty: "get_prop ''type'' ping_cmd = Inr (JStr ''ping'')"
    "get_prop ''type'' send_cmd = Inr (JStr ''send'')"
    by (simp_all add: ping_cmd_def send_cmd_def)
  have ne: "JStr ''ping'' \<noteq> JStr ''send''"
    by simp
  have w: "wa new_server = None"
    by (simp add: new_server_def)
  have tags: "type_tag (sent_reply x) = ''sent''" for x
    by (simp add: type_tag_def sent_reply_def)
  from ping ty(1) ne have 1: "handleCommand Accepts online ping_cmd = (Inr (), [])"
    by blast
  from early ty(2) w have 2: "handleCommand Accepts new_server send_cmd = (Inr (), [])"
    by blast
  from ping 1 obtain r where
    "sends (ws_on_message type_tag Accepts online 1 (Inr ping_cmd)) = [(1, type_tag r)]"
    and "\<exists>dst. r = sent_reply dst"
    by auto
  with tags have 3: "sends (ws_on_message type_tag Accepts online 1 (Inr ping_cmd)) = [(1, ''sent'')]"
    by auto
  from early 2 obtain r' where
    "sends (ws_on_message type_tag Accepts new_server 1 (Inr send_cmd)) = [(1, type_tag r')]"
    and "\<exists>dst. r' = sent_reply dst"
    by auto
  with tags have 4: "sends (ws_on_message type_tag Accepts new_server 1 (Inr send_cmd)) = [(1, ''sent'')]"
    by auto
  from ty(1) ne w 1 2 3 4 show ?thesis by simp
qed

section \<open>Broadcast and shutdown\<close>

lemma broadcast_eq:
  "broadcast rs f s msg = Stringify msg # map (\<lambda>c. WsSend c (f msg)) (recipients rs s)"
proof -
  have "concat (map (\<lambda>c. if rs c = OPEN then [WsSend c (f msg)] else []) cs)
        = map (\<lambda>c. WsSend c (f msg)) (filter (\<lambda>c. rs c = OPEN) cs)" for cs
    by (induction cs) auto
  then show ?thesis by (simp add: broadcast_def recipients_def)
qed

text \<open>Each of the adapter's three callbacks is one broadcast of the corresponding event.\<close>

lemma relay_broadcasts:
  "relay rs f s (OnMessage m) = broadcast rs f s (message_event m)"
  "relay rs f s (OnQR q) = broadcast rs f s (qr_event q)"
  "relay rs f s (OnStatus st) = broadcast rs f s (status_event st)"
  by (simp_all add: relay_def)

lemma sends_map_WsSend: "sends (map (\<lambda>c. WsSend c d) cs) = map (\<lambda>c. (c, d)) cs"
  by (induction cs) (auto simp: sends_simps)

lemma stringified_map_WsSend: "stringified (map (\<lambda>c. WsSend c d) cs) = []"
  by (induction cs) (auto simp: stringified_def)

lemma count_list_distinct: "distinct xs \<Longrightarrow> count_list xs x = (if x \<in> set xs then 1 else 0)"
  by (induction xs) auto

text \<open>The registration set never holds a peer twice.\<close>

lemma on_connection_distinct: "distinct (clients s) \<Longrightarrow> distinct (clients (on_connection s ws))"
  by (simp add: on_connection_def)

lemma ws_on_close_distinct: "distinct (clients s) \<Longrightarrow> distinct (clients (ws_on_close s ws))"
  by (simp add: ws_on_close_def distinct_removeAll)

lemma ws_on_error_distinct: "distinct (clients s) \<Longrightarrow> distinct (clients (ws_on_error s ws))"
  by (simp add: ws_on_error_def distinct_removeAll)

lemma start_distinct: "distinct (clients (start new_server))"
  by (simp add: start_def new_server_def)

text \<open>
  Claim C6. One broadcast serialises its event exactly once and sends that one text to the
  registered peers whose socket is \<^verbatim>\<open>OPEN\<close>, in registration order. It makes no other
  call: a peer whose socket is not open is passed over, nothing is scheduled or kept for
  it. As the registration set holds no peer twice, every registered peer with an open
  socket is sent the text exactly once, and every other peer not at all.
\<close>

theorem broadcast_best_effort:
  "stringified (broadcast rs f s msg) = [msg]
 \<and> sends (broadcast rs f s msg) = map (\<lambda>c. (c, f msg)) (filter (\<lambda>c. rs c = OPEN) (clients s))
 \<and> (\<forall>c\<in>set (broadcast rs f s msg). c = Stringify msg \<or> (\<exists>p. c = WsSend p (f msg)))
 \<and> (distinct (clients s) \<longrightarrow>
      (\<forall>p. count_list (map fst (sends (broadcast rs f s msg))) p
             = (if p \<in> set (clients s) \<and> rs p = OPEN then 1 else 0)))"
proof -
  have 1: "stringified (broadcast rs f s msg) = [msg]"
    using stringified_map_WsSend [of "f msg" "recipients rs s"]
    by (simp add: broadcast_eq stringified_def)
  have 2: "sends (broadcast rs f s msg)
             = map (\<lambda>c. (c, f msg)) (filter (\<lambda>c. rs c = OPEN) (clients s))"
    by (simp add: broadcast_eq sends_map_WsSend sends_simps recipients_def)
  have 3: "\<forall>c\<in>set (broadcast rs f s msg). c = Stringify msg \<or> (\<exists>p. c = WsSend p (f msg))"
    by (auto simp: broadcast_eq)
  have 4: "count_list (map fst (sends (broadcast rs f s msg))) p
             = (if p \<in> set (clients s) \<and> rs p = OPEN then 1 else 0)"
    if "distinct (clients s)" for p
  proof -
    have "map fst (sends (broadcast rs f s msg)) = recipients rs s"
      by (simp add: 2 recipients_def comp_def)
    moreover have "distinct (recipients rs s)" using that by (simp add: recipients_def)
    ultimately show ?thesis by (auto simp: count_list_distinct recipients_def)
  qed
  from 1 2 3 4 show ?thesis by blast
qed

theorem broadcast_best_effort_witness:
  "clients two_peers = [1, 2]
 \<and> distinct (clients two_peers)
 \<and> first_open 1 = OPEN \<and> first_open 2 \<noteq> OPEN
 \<and> broadcast first_open type_tag two_peers (status_event ''connected'')
      = [Stringify (status_event ''connected''), WsSend 1 ''status'']
 \<and> count_list (map fst (sends (broadcast first_open type_tag two_peers (status_event ''connected'')))) 1 = 1
 \<and> count_list (map fst (sends (broadcast first_open type_tag two_peers (status_event ''connected'')))) 2 = 0"
proof -
  note t = broadcast_best_effort [of first_open type_tag two_peers "status_event ''connected''"]
  have c: "clients two_peers = [1, 2]"
    by (simp add: two_peers_def on_connection_def start_def new_server_def)
  then have d: "distinct (clients two_peers)"
    by simp
  have r: "first_open 1 = OPEN" "first_open 2 \<noteq> OPEN"
    by (simp_all add: first_open_def)
  have b: "broadcast first_open type_tag two_peers (status_event ''connected'')
      = [Stringify (status_event ''connected''), WsSend 1 ''status'']"
    by (simp add: broadcast_def c first_open_def type_tag_def status_event_def)
  from t d c r have
    "count_list (map fst (sends (broadcast first_open type_tag two_peers (status_event ''connected'')))) 1 = 1"
    "count_list (map fst (sends (broadcast first_open type_tag two_peers (status_event ''connected'')))) 2 = 0"
    by simp_all
  with c d r b show ?thesis by simp
qed




end
